theory Spec2Isabelle
  imports Main
begin

section \<open>Hook script wrapper (bootstrap/hook.go)\<close>

text \<open>
  The wrapper runs a hook between two dumps of the environment and reports the
  variables the hook exported. Everything the Go code does to the file system is
  explicit here: every function takes the world and returns the new one.
\<close>

subsection \<open>Errors, paths, environments\<close>

text \<open>A Go \<open>error\<close> is identified with its message; a file is identified with its name.\<close>

type_synonym error = string
type_synonym path = string

text \<open>An \<open>env.Environment\<close>: variable names to values.\<close>

type_synonym Environment = "string \<rightharpoonup> string"

definition dq :: char where
  "dq = CHR 0x22"

definition nl :: char where
  "nl = CHR 0x0A"

definition BUILDKITE_LAST_HOOK_EXIT_STATUS :: string where
  "BUILDKITE_LAST_HOOK_EXIT_STATUS = ''BUILDKITE_LAST_HOOK_EXIT_STATUS''"

text \<open>
  Modelled from the spec: \<open>Environment.Remove\<close> of package \<open>env\<close>, which is not among
  the sources. The named variable is taken out of the environment; the former value is
  returned (the caller in hook.go discards it).
\<close>

definition Remove :: "Environment \<Rightarrow> string \<Rightarrow> string \<times> Environment" where
  "Remove e key = ((case e key of None \<Rightarrow> [] | Some v \<Rightarrow> v), e(key := None))"

text \<open>
  Modelled from the spec: \<open>Environment.Diff\<close> of package \<open>env\<close>, which is not among the
  sources. For every name present in the receiver (the after snapshot): if it is absent
  from the other snapshot, or present there with a different value, the result maps the
  name to the receiver's value. Comparison is exact string equality.
\<close>

definition Diff :: "Environment \<Rightarrow> Environment \<Rightarrow> Environment" where
  "Diff e other =
     (\<lambda>k. case e k of
            None \<Rightarrow> None
          | Some v \<Rightarrow>
              (case other k of
                 None \<Rightarrow> Some v
               | Some v' \<Rightarrow> if v' \<noteq> v then Some v else None))"

subsection \<open>The world: files, open handles, permissions, calls made\<close>

datatype call =
    CallTempFile string
  | CallAbs string
  | CallWriteString path string
  | CallFileClose path
  | CallAddExecute path
  | CallRemove path
  | CallReadFile path

record world =
  files :: "path \<rightharpoonup> string"
  opened :: "path set"
  executable :: "path set"
  calls :: "call list"

text \<open>
  What the host decides and the code cannot: the platform identifier, the collaborators
  of other packages whose results the code only passes on, and the outcome of the
  operating-system requests that may be refused. \<open>filepath.Abs\<close> reads the working
  directory and changes nothing: it is a function of the host.
\<close>

record host =
  GOOS :: string
  normalizeScriptFileName :: "string \<Rightarrow> string"
  FromExport :: "string \<Rightarrow> Environment"
  Abs :: "string \<Rightarrow> error + string"
  TempName :: "string \<Rightarrow> world \<Rightarrow> error + path"
  WriteErr :: "path \<Rightarrow> (nat \<times> error) option"
  ChmodErr :: "path \<Rightarrow> error option"
  RemoveErr :: "path \<Rightarrow> error option"

definition logCall :: "call \<Rightarrow> world \<Rightarrow> world" where
  "logCall c w = w\<lparr>calls := calls w @ [c]\<rparr>"

text \<open>
  Modelled from the spec: \<open>shell.TempFileWithExtension\<close>, which is not among the sources.
  It allocates a uniquely named, collision-free temporary file: on success a new, empty
  file exists under a name no file had, and its handle is open; on failure nothing is
  created.
\<close>

definition TempFileWithExtension :: "host \<Rightarrow> string \<Rightarrow> world \<Rightarrow> (error + path) \<times> world" where
  "TempFileWithExtension hst filename w =
     (let w' = logCall (CallTempFile filename) w in
      case TempName hst filename w of
        Inl e \<Rightarrow> (Inl e, w')
      | Inr p \<Rightarrow>
          if files w p \<noteq> None then (Inl (''file exists: '' @ p), w')
          else (Inr p, w'\<lparr>files := (files w')(p \<mapsto> []), opened := insert p (opened w')\<rparr>))"

text \<open>\<open>(*os.File).Close\<close>: the handle is released. The code discards the result.\<close>

definition FileClose :: "path \<Rightarrow> world \<Rightarrow> world" where
  "FileClose p w = (logCall (CallFileClose p) w)\<lparr>opened := opened w - {p}\<rparr>"

text \<open>
  \<open>(*os.File).WriteString\<close>: the text is appended through an open handle, and the
  error is nil. The host may fail the write (no space left, an input/output error):
  \<open>WriteErr\<close> then gives the number of bytes that still reached the file, and the error
  returned. Through a closed handle nothing is written.
\<close>

definition WriteString :: "host \<Rightarrow> path \<Rightarrow> string \<Rightarrow> world \<Rightarrow> error option \<times> world" where
  "WriteString hst p s w =
     (let w' = logCall (CallWriteString p s) w in
      case files w p of
        None \<Rightarrow> (Some (''write '' @ p @ '': file already closed''), w')
      | Some c \<Rightarrow>
          if p \<notin> opened w then (Some (''write '' @ p @ '': file already closed''), w')
          else
            (case WriteErr hst p of
               None \<Rightarrow> (None, w'\<lparr>files := (files w')(p \<mapsto> c @ s)\<rparr>)
             | Some (n, e) \<Rightarrow> (Some e, w'\<lparr>files := (files w')(p \<mapsto> c @ take n s)\<rparr>)))"

text \<open>
  Modelled from the spec: \<open>addExecutePermissiontoFile\<close>, which is not among the sources:
  the collaborator that marks a file executable, or reports why it could not.
\<close>

definition addExecutePermissiontoFile :: "host \<Rightarrow> path \<Rightarrow> world \<Rightarrow> error option \<times> world" where
  "addExecutePermissiontoFile hst p w =
     (let w' = logCall (CallAddExecute p) w in
      case files w p of
        None \<Rightarrow> (Some (''stat '' @ p @ '': no such file or directory''), w')
      | Some c \<Rightarrow>
          (case ChmodErr hst p of
             Some e \<Rightarrow> (Some e, w')
           | None \<Rightarrow> (None, w'\<lparr>executable := insert p (executable w')\<rparr>)))"

text \<open>\<open>os.Remove\<close>: the named file is removed, unless it is absent or the host refuses.\<close>

definition os_Remove :: "host \<Rightarrow> path \<Rightarrow> world \<Rightarrow> error option \<times> world" where
  "os_Remove hst p w =
     (let w' = logCall (CallRemove p) w in
      case files w p of
        None \<Rightarrow> (Some (''remove '' @ p @ '': no such file or directory''), w')
      | Some c \<Rightarrow>
          (case RemoveErr hst p of
             Some e \<Rightarrow> (Some e, w')
           | None \<Rightarrow> (None, w'\<lparr>files := (files w')(p := None),
                                 executable := executable w' - {p}\<rparr>)))"

text \<open>\<open>ioutil.ReadFile\<close>: the contents of the named file, or an error when it cannot be opened.\<close>

definition ReadFile :: "path \<Rightarrow> world \<Rightarrow> (error + string) \<times> world" where
  "ReadFile p w =
     (let w' = logCall (CallReadFile p) w in
      case files w p of
        None \<Rightarrow> (Inl (''open '' @ p @ '': no such file or directory''), w')
      | Some c \<Rightarrow> (Inr c, w'))"

subsection \<open>The generated script\<close>

text \<open>The text built under ``Create the hook runner code'', by platform.\<close>

definition windowsScript :: "path \<Rightarrow> string \<Rightarrow> path \<Rightarrow> string" where
  "windowsScript beforeName absolutePathToHook afterName =
     ''@echo off'' @ [nl] @
     ''SETLOCAL ENABLEDELAYEDEXPANSION'' @ [nl] @
     ''SET > '' @ [dq] @ beforeName @ [dq] @ [nl] @
     ''CALL '' @ [dq] @ absolutePathToHook @ [dq] @ [nl] @
     ''SET BUILDKITE_LAST_HOOK_EXIT_STATUS=!ERRORLEVEL!'' @ [nl] @
     ''SET > '' @ [dq] @ afterName @ [dq] @ [nl] @
     ''EXIT %BUILDKITE_LAST_HOOK_EXIT_STATUS%''"

definition posixScript :: "path \<Rightarrow> string \<Rightarrow> path \<Rightarrow> string" where
  "posixScript beforeName absolutePathToHook afterName =
     ''#!/bin/bash'' @ [nl] @
     ''export -p > '' @ [dq] @ beforeName @ [dq] @ [nl] @
     ''. '' @ [dq] @ absolutePathToHook @ [dq] @ [nl] @
     ''BUILDKITE_LAST_HOOK_EXIT_STATUS=$?'' @ [nl] @
     ''export -p > '' @ [dq] @ afterName @ [dq] @ [nl] @
     ''exit $BUILDKITE_LAST_HOOK_EXIT_STATUS''"

definition hookRunnerScript :: "string \<Rightarrow> path \<Rightarrow> string \<Rightarrow> path \<Rightarrow> string" where
  "hookRunnerScript goos beforeName absolutePathToHook afterName =
     (if goos = ''windows'' then windowsScript beforeName absolutePathToHook afterName
      else posixScript beforeName absolutePathToHook afterName)"

subsection \<open>The wrapper\<close>

record hookScriptWrapper =
  hookPath :: string
  scriptFile :: path
  beforeEnvFile :: path
  afterEnvFile :: path

text \<open>
  \<open>newHookScriptWrapper\<close> returns a pointer and an error, either of which may be nil:
  \<open>(None, Some e)\<close> is \<open>return nil, err\<close>, \<open>(Some h, Some e)\<close> is \<open>return h, err\<close>.
  The results of \<open>WriteString\<close> and of the three \<open>Close\<close> calls are not looked at.
\<close>

definition newHookScriptWrapper ::
  "host \<Rightarrow> string \<Rightarrow> world \<Rightarrow> (hookScriptWrapper option \<times> error option) \<times> world" where
  "newHookScriptWrapper hst hookPath' w0 =
     (case TempFileWithExtension hst
             (normalizeScriptFileName hst ''buildkite-agent-bootstrap-hook-runner'') w0 of
        (Inl err, w1) \<Rightarrow> ((None, Some err), w1)
      | (Inr scriptFile', w1) \<Rightarrow>
     (case TempFileWithExtension hst ''buildkite-agent-bootstrap-hook-env-before'' w1 of
        (Inl err, w2) \<Rightarrow> ((None, Some err), w2)
      | (Inr beforeEnvFile', w2) \<Rightarrow>
     (let w3 = FileClose beforeEnvFile' w2 in
      case TempFileWithExtension hst ''buildkite-agent-bootstrap-hook-env-after'' w3 of
        (Inl err, w4) \<Rightarrow> ((None, Some err), w4)
      | (Inr afterEnvFile', w4) \<Rightarrow>
     (let w5 = logCall (CallAbs hookPath') (FileClose afterEnvFile' w4) in
      case Abs hst hookPath' of
        Inl err \<Rightarrow>
          ((None, Some (''Failed to find absolute path to '' @ [dq] @ hookPath' @ [dq] @
                        '' ('' @ err @ '')'')), w5)
      | Inr absolutePathToHook \<Rightarrow>
     (let script = hookRunnerScript (GOOS hst) beforeEnvFile' absolutePathToHook afterEnvFile';
          w6 = snd (WriteString hst scriptFile' script w5);
          w7 = FileClose scriptFile' w6;
          h = \<lparr>hookPath = hookPath', scriptFile = scriptFile',
               beforeEnvFile = beforeEnvFile', afterEnvFile = afterEnvFile'\<rparr>
      in case addExecutePermissiontoFile hst scriptFile' w7 of
           (Some err, w8) \<Rightarrow> ((Some h, Some err), w8)
         | (None, w8) \<Rightarrow> ((Some h, None), w8))))))"

definition Path :: "hookScriptWrapper \<Rightarrow> path" where
  "Path h = scriptFile h"

text \<open>\<open>Close\<close> returns nothing; the three results of \<open>os.Remove\<close> are dropped.\<close>

definition Close :: "host \<Rightarrow> hookScriptWrapper \<Rightarrow> world \<Rightarrow> world" where
  "Close hst h w0 =
     (let w1 = snd (os_Remove hst (scriptFile h) w0);
          w2 = snd (os_Remove hst (beforeEnvFile h) w1);
          w3 = snd (os_Remove hst (afterEnvFile h) w2)
      in w3)"

definition ChangedEnvironment ::
  "host \<Rightarrow> hookScriptWrapper \<Rightarrow> world \<Rightarrow> (Environment option \<times> error option) \<times> world" where
  "ChangedEnvironment hst h w0 =
     (case ReadFile (beforeEnvFile h) w0 of
        (Inl err, w1) \<Rightarrow>
          ((None, Some (''Failed to read '' @ [dq] @ beforeEnvFile h @ [dq] @
                        '' ('' @ err @ '')'')), w1)
      | (Inr beforeEnvContents, w1) \<Rightarrow>
     (case ReadFile (afterEnvFile h) w1 of
        (Inl err, w2) \<Rightarrow>
          ((None, Some (''Failed to read '' @ [dq] @ afterEnvFile h @ [dq] @
                        '' ('' @ err @ '')'')), w2)
      | (Inr afterEnvContents, w2) \<Rightarrow>
     (let beforeEnv = FromExport hst beforeEnvContents;
          afterEnv = FromExport hst afterEnvContents;
          afterEnv' = snd (Remove afterEnv BUILDKITE_LAST_HOOK_EXIT_STATUS)
      in ((Some (Diff afterEnv' beforeEnv), None), w2))))"

section \<open>The interpreters of the generated text\<close>

text \<open>
  The constructor only produces text; \<open>/bin/bash\<close> or \<open>cmd.exe\<close> runs it. What those
  interpreters make of the text is modelled for the command forms the generator emits:
  a reader turns the text into steps (and gives \<open>None\<close> for any text outside these
  forms), and \<open>run\<close> executes steps on a shell state.
\<close>

datatype step =
    DumpEnv path
  | SourceHook path
  | CaptureStatus string
  | ExitWith string

subsection \<open>Lexical helpers\<close>

definition bs :: char where
  "bs = CHR 0x5C"

definition bq :: char where
  "bq = CHR 0x60"


fun stripPrefix :: "string \<Rightarrow> string \<Rightarrow> string option" where
  "stripPrefix [] s = Some s"
| "stripPrefix (p # ps) [] = None"
| "stripPrefix (p # ps) (c # cs) = (if p = c then stripPrefix ps cs else None)"

definition stripSuffix :: "string \<Rightarrow> string \<Rightarrow> string option" where
  "stripSuffix suf s = map_option rev (stripPrefix (rev suf) (rev s))"

definition isDigit :: "char \<Rightarrow> bool" where
  "isDigit c = (48 \<le> (of_char c :: nat) \<and> (of_char c :: nat) \<le> 57)"

definition isNameChar :: "char \<Rightarrow> bool" where
  "isNameChar c =
     (let n = (of_char c :: nat)
      in (65 \<le> n \<and> n \<le> 90) \<or> (97 \<le> n \<and> n \<le> 122) \<or> (48 \<le> n \<and> n \<le> 57) \<or> n = 95)"

text \<open>A variable name: letters, digits and underscores, not starting with a digit.\<close>

definition isName :: "string \<Rightarrow> bool" where
  "isName s = (case s of [] \<Rightarrow> False | c # cs \<Rightarrow> \<not> isDigit c \<and> list_all isNameChar s)"

fun collect :: "step list option list \<Rightarrow> step list option" where
  "collect [] = Some []"
| "collect (None # rest) = None"
| "collect (Some x # rest) = map_option ((@) x) (collect rest)"

subsection \<open>The POSIX reader\<close>

text \<open>
  Between double quotes the shell still expands \<open>$\<close> and the backquote and treats the
  backslash as an escape; a path free of these four characters stands for itself.
\<close>

definition posixPlain :: "string \<Rightarrow> bool" where
  "posixPlain p = list_all (\<lambda>c. c \<noteq> dq \<and> c \<noteq> CHR ''$'' \<and> c \<noteq> bq \<and> c \<noteq> bs) p"

definition posixQuoted :: "string \<Rightarrow> string option" where
  "posixQuoted s =
     (case s of
        [] \<Rightarrow> None
      | c # r \<Rightarrow>
          if c = dq \<and> r \<noteq> [] \<and> last r = dq \<and> posixPlain (butlast r)
          then Some (butlast r) else None)"

text \<open>
  Commands end at a newline, except that a newline between double quotes belongs to the
  quoted word. A quote left open at the end of the text is a syntax error.
\<close>

fun posixCommands :: "bool \<Rightarrow> string \<Rightarrow> string \<Rightarrow> string list option" where
  "posixCommands inq cur [] = (if inq then None else Some [cur])"
| "posixCommands inq cur (c # cs) =
     (if c = dq then posixCommands (\<not> inq) (cur @ [c]) cs
      else if c = nl \<and> \<not> inq then map_option ((#) cur) (posixCommands False [] cs)
      else posixCommands inq (cur @ [c]) cs)"

definition posixCommand :: "string \<Rightarrow> step list option" where
  "posixCommand c =
     (if c = [] \<or> take 1 c = ''#'' then Some []
      else case stripPrefix ''export -p > '' c of
        Some r \<Rightarrow> map_option (\<lambda>p. [DumpEnv p]) (posixQuoted r)
      | None \<Rightarrow>
     (case stripPrefix ''. '' c of
        Some r \<Rightarrow> map_option (\<lambda>p. [SourceHook p]) (posixQuoted r)
      | None \<Rightarrow>
     (case stripPrefix ''exit $'' c of
        Some n \<Rightarrow> if isName n then Some [ExitWith n] else None
      | None \<Rightarrow>
     (case stripSuffix ''=$?'' c of
        Some n \<Rightarrow> if isName n then Some [CaptureStatus n] else None
      | None \<Rightarrow> None))))"

definition readPosix :: "string \<Rightarrow> step list option" where
  "readPosix text =
     (if bs \<in> set text \<or> bq \<in> set text then None
      else case posixCommands False [] text of
        None \<Rightarrow> None
      | Some cs \<Rightarrow> collect (map posixCommand cs))"

subsection \<open>The Windows reader\<close>



fun splitLines :: "string \<Rightarrow> string list" where
  "splitLines [] = [[]]"
| "splitLines (c # cs) =
     (if c = nl then [] # splitLines cs
      else case splitLines cs of l # ls \<Rightarrow> (c # l) # ls | [] \<Rightarrow> [[c]])"



subsection \<open>Running the steps\<close>

datatype dialect = Posix | Windows




record shell =
  vars :: "string \<rightharpoonup> string"
  exported :: "string set"
  status :: nat
  dumped :: "(path \<times> Environment) list"

text \<open>
  What a dump shows: \<open>export -p\<close> lists the exported variables only, \<open>SET\<close> lists every
  variable.
\<close>

definition environ :: "dialect \<Rightarrow> shell \<Rightarrow> Environment" where
  "environ d sh =
     (case d of
        Posix \<Rightarrow> (\<lambda>k. if k \<in> exported sh then vars sh k else None)
      | Windows \<Rightarrow> vars sh)"

text \<open>
  A process exit code: a byte on POSIX, 32 bits on Windows.
\<close>

definition exitCode :: "dialect \<Rightarrow> nat \<Rightarrow> nat" where
  "exitCode d n = (case d of Posix \<Rightarrow> n mod 256 | Windows \<Rightarrow> n mod 4294967296)"

text \<open>Decimal numerals, as \<open>$?\<close> and \<open>!ERRORLEVEL!\<close> expand to and \<open>exit\<close> reads.\<close>

fun showNat :: "nat \<Rightarrow> string" where
  "showNat n =
     (if n < 10 then [char_of (48 + n)]
      else showNat (n div 10) @ [char_of (48 + n mod 10)])"

fun readDigits :: "nat \<Rightarrow> string \<Rightarrow> nat option" where
  "readDigits acc [] = Some acc"
| "readDigits acc (c # cs) =
     (if isDigit c then readDigits (acc * 10 + (of_char c - 48)) cs else None)"

definition readNat :: "string \<Rightarrow> nat option" where
  "readNat s = (if s = [] then None else readDigits 0 s)"

text \<open>
  A sourced hook works on the shell's own state. It either returns to the wrapper, its
  exit status in \<open>status\<close>, or ends the shell itself (\<open>exit\<close> in a sourced file).
\<close>

datatype outcome = Returns shell | Exits shell

text \<open>
  \<open>run\<close> gives the exit code of the process and the final state; \<open>None\<close> when \<open>exit\<close>
  is given something that is not a number. After a dump or an assignment the status is
  0 on POSIX; a batch file keeps \<open>ERRORLEVEL\<close>. A script that runs off its end exits
  with the last status, and so does \<open>exit\<close> with an unset variable.
\<close>

fun run :: "dialect \<Rightarrow> (path \<Rightarrow> shell \<Rightarrow> outcome) \<Rightarrow> step list \<Rightarrow> shell \<Rightarrow> (nat \<times> shell) option" where
  "run d hooks [] sh = Some (exitCode d (status sh), sh)"
| "run d hooks (DumpEnv p # rest) sh =
     run d hooks rest
       (sh\<lparr>dumped := dumped sh @ [(p, environ d sh)],
           status := (case d of Posix \<Rightarrow> 0 | Windows \<Rightarrow> status sh)\<rparr>)"
| "run d hooks (SourceHook p # rest) sh =
     (case hooks p sh of
        Returns sh' \<Rightarrow> run d hooks rest sh'
      | Exits sh' \<Rightarrow> Some (exitCode d (status sh'), sh'))"
| "run d hooks (CaptureStatus n # rest) sh =
     run d hooks rest
       (sh\<lparr>vars := (vars sh)(n \<mapsto> showNat (status sh)),
           status := (case d of Posix \<Rightarrow> 0 | Windows \<Rightarrow> status sh)\<rparr>)"
| "run d hooks (ExitWith n # rest) sh =
     (case vars sh n of
        None \<Rightarrow> Some (exitCode d (status sh), sh)
      | Some v \<Rightarrow>
          (case readNat v of
             None \<Rightarrow> None
           | Some k \<Rightarrow> Some (exitCode d k, sh)))"





section \<open>Predicates on calls and files\<close>

fun isAddExecute :: "call \<Rightarrow> bool" where
  "isAddExecute (CallAddExecute p) = True"
| "isAddExecute c = False"

text \<open>What a write of \<open>s\<close> to \<open>p\<close> leaves in the file: all of it, or the part the host let through.\<close>

definition written :: "host \<Rightarrow> path \<Rightarrow> string \<Rightarrow> string" where
  "written hst p s = (case WriteErr hst p of None \<Rightarrow> s | Some (n, e) \<Rightarrow> take n s)"

text \<open>A file can be read when \<open>ioutil.ReadFile\<close> returns its contents.\<close>

definition readable :: "world \<Rightarrow> path \<Rightarrow> bool" where
  "readable w p = (case fst (ReadFile p w) of Inl e \<Rightarrow> False | Inr c \<Rightarrow> True)"

section \<open>Example hosts and worlds\<close>

text \<open>
  Modelled from the spec: a decoder for the Windows dump format, standing in for
  \<open>env.FromExport\<close>, which is not among the sources: one \<open>NAME=value\<close> line per variable,
  no quoting; a line that is not of that form is skipped; the last declaration of a name
  wins. The theorems hold for every decoder; this one serves the examples.
\<close>

fun splitAtEq :: "string \<Rightarrow> (string \<times> string) option" where
  "splitAtEq [] = None"
| "splitAtEq (c # cs) =
     (if c = CHR ''='' then Some ([], cs)
      else map_option (\<lambda>(k, v). (c # k, v)) (splitAtEq cs))"

definition setLine :: "string \<Rightarrow> Environment \<Rightarrow> Environment" where
  "setLine l e =
     (case splitAtEq l of
        None \<Rightarrow> e
      | Some (k, v) \<Rightarrow> if k = [] then e else e(k \<mapsto> v))"

definition listingFromExport :: "string \<Rightarrow> Environment" where
  "listingFromExport s = fold setLine (splitLines s) Map.empty"

definition exampleHost :: host where
  "exampleHost =
     \<lparr>GOOS = ''windows'',
      normalizeScriptFileName = (\<lambda>n. n @ ''.bat''),
      FromExport = listingFromExport,
      Abs = (\<lambda>p. Inr (''C:/builds/'' @ p)),
      TempName = (\<lambda>n w. Inr (''C:/Temp/'' @ n)),
      WriteErr = (\<lambda>p. None),
      ChmodErr = (\<lambda>p. None),
      RemoveErr = (\<lambda>p. None)\<rparr>"

definition exampleWorld :: world where
  "exampleWorld = \<lparr>files = Map.empty, opened = {}, executable = {}, calls = []\<rparr>"

definition exampleWrapper :: hookScriptWrapper where
  "exampleWrapper =
     \<lparr>hookPath = ''hooks/pre-command.bat'',
      scriptFile = ''C:/Temp/buildkite-agent-bootstrap-hook-runner.bat'',
      beforeEnvFile = ''C:/Temp/buildkite-agent-bootstrap-hook-env-before'',
      afterEnvFile = ''C:/Temp/buildkite-agent-bootstrap-hook-env-after''\<rparr>"

definition fullDiskHost :: host where
  "fullDiskHost =
     exampleHost\<lparr>TempName :=
       (\<lambda>n w. if n = ''buildkite-agent-bootstrap-hook-env-before''
              then Inl ''There is not enough space on the disk.''
              else Inr (''C:/Temp/'' @ n))\<rparr>"

definition writeRefusedHost :: host where
  "writeRefusedHost =
     exampleHost\<lparr>WriteErr := (\<lambda>p. Some (0, ''There is not enough space on the disk.''))\<rparr>"

definition noCwdHost :: host where
  "noCwdHost = exampleHost\<lparr>Abs := (\<lambda>p. Inl ''getwd: The system cannot find the path specified.'')\<rparr>"

definition lockedHost :: host where
  "lockedHost =
     exampleHost\<lparr>RemoveErr :=
       (\<lambda>p. if p = ''C:/Temp/buildkite-agent-bootstrap-hook-runner.bat''
            then Some ''Access is denied.'' else None)\<rparr>"

definition ranWorld :: world where
  "ranWorld =
     \<lparr>files =
        [''C:/Temp/buildkite-agent-bootstrap-hook-runner.bat'' \<mapsto>
           hookRunnerScript ''windows'' ''C:/Temp/buildkite-agent-bootstrap-hook-env-before''
             ''C:/builds/hooks/pre-command.bat''
             ''C:/Temp/buildkite-agent-bootstrap-hook-env-after'',
         ''C:/Temp/buildkite-agent-bootstrap-hook-env-before'' \<mapsto>
           ''PATH=C:/bin'',
         ''C:/Temp/buildkite-agent-bootstrap-hook-env-after'' \<mapsto>
           ''PATH=C:/bin;C:/extra'' @ [nl] @ ''FOO=bar'' @ [nl] @ ''not a declaration'' @ [nl] @
           ''BUILDKITE_LAST_HOOK_EXIT_STATUS=0''],
      opened = {},
      executable = {''C:/Temp/buildkite-agent-bootstrap-hook-runner.bat''},
      calls = []\<rparr>"



section \<open>Effects of the operations\<close>

lemma logCall_simps [simp]:
  "files (logCall c w) = files w"
  "opened (logCall c w) = opened w"
  "executable (logCall c w) = executable w"
  "calls (logCall c w) = calls w @ [c]"
  by (simp_all add: logCall_def)

lemma FileClose_simps [simp]:
  "files (FileClose p w) = files w"
  "opened (FileClose p w) = opened w - {p}"
  "executable (FileClose p w) = executable w"
  "calls (FileClose p w) = calls w @ [CallFileClose p]"
  by (simp_all add: FileClose_def)

lemma WriteString_open:
  assumes "files w p = Some c" "p \<in> opened w"
  shows "files (snd (WriteString hst p s w)) = (files w)(p \<mapsto> c @ written hst p s)"
    and "opened (snd (WriteString hst p s w)) = opened w"
    and "executable (snd (WriteString hst p s w)) = executable w"
    and "calls (snd (WriteString hst p s w)) = calls w @ [CallWriteString p s]"
  using assms by (simp_all add: WriteString_def written_def Let_def split: option.splits)

lemma TempFile_cases:
  obtains (refused) e w' where
      "TempFileWithExtension hst n w = (Inl e, w')"
      "files w' = files w" "opened w' = opened w" "executable w' = executable w"
      "calls w' = calls w @ [CallTempFile n]"
  | (created) p w' where "files w p = None"
      "TempFileWithExtension hst n w = (Inr p, w')"
      "files w' = (files w)(p \<mapsto> [])" "opened w' = insert p (opened w)"
      "executable w' = executable w" "calls w' = calls w @ [CallTempFile n]"
proof (cases "TempName hst n w")
  case (Inl e)
  then have "TempFileWithExtension hst n w = (Inl e, logCall (CallTempFile n) w)"
    by (simp add: TempFileWithExtension_def)
  then show ?thesis by (rule refused) simp_all
next
  case (Inr p)
  show ?thesis
  proof (cases "files w p")
    case None
    let ?w' = "(logCall (CallTempFile n) w)\<lparr>files := (files w)(p \<mapsto> []),
                                               opened := insert p (opened w)\<rparr>"
    from Inr None have "TempFileWithExtension hst n w = (Inr p, ?w')"
      by (simp add: TempFileWithExtension_def logCall_def)
    with None show ?thesis by (rule created) simp_all
  next
    case (Some c)
    with Inr have "TempFileWithExtension hst n w =
       (Inl (''file exists: '' @ p), logCall (CallTempFile n) w)"
      by (simp add: TempFileWithExtension_def)
    then show ?thesis by (rule refused) simp_all
  qed
qed

lemma addExecute_cases:
  obtains (refused) e w' where
      "addExecutePermissiontoFile hst p w = (Some e, w')"
      "files w' = files w" "opened w' = opened w" "executable w' = executable w"
      "calls w' = calls w @ [CallAddExecute p]"
  | (marked) w' where
      "addExecutePermissiontoFile hst p w = (None, w')"
      "files w' = files w" "opened w' = opened w" "executable w' = insert p (executable w)"
      "calls w' = calls w @ [CallAddExecute p]"
proof (cases "files w p")
  case None
  then have "addExecutePermissiontoFile hst p w =
     (Some (''stat '' @ p @ '': no such file or directory''), logCall (CallAddExecute p) w)"
    by (simp add: addExecutePermissiontoFile_def)
  then show ?thesis by (rule refused) simp_all
next
  case (Some c)
  show ?thesis
  proof (cases "ChmodErr hst p")
    case None
    let ?w' = "(logCall (CallAddExecute p) w)\<lparr>executable := insert p (executable w)\<rparr>"
    from None Some have "addExecutePermissiontoFile hst p w = (None, ?w')"
      by (simp add: addExecutePermissiontoFile_def logCall_def)
    then show ?thesis by (rule marked) simp_all
  next
    case (Some e)
    with \<open>files w p = Some c\<close> have
      "addExecutePermissiontoFile hst p w = (Some e, logCall (CallAddExecute p) w)"
      by (simp add: addExecutePermissiontoFile_def)
    then show ?thesis by (rule refused) simp_all
  qed
qed

lemma newHook_outcomes:
  fixes hst hp w0
  defines "r \<equiv> fst (newHookScriptWrapper hst hp w0)"
  defines "w' \<equiv> snd (newHookScriptWrapper hst hp w0)"
  obtains
    (tmp1) e where "r = (None, Some e)" "files w' = files w0" "opened w' = opened w0"
      "executable w' = executable w0"
      "calls w' = calls w0 @
         [CallTempFile (normalizeScriptFileName hst ''buildkite-agent-bootstrap-hook-runner'')]"
  | (tmp2) s e where "files w0 s = None" "r = (None, Some e)"
      "files w' = (files w0)(s \<mapsto> [])" "opened w' = insert s (opened w0)"
      "executable w' = executable w0"
      "calls w' = calls w0 @
         [CallTempFile (normalizeScriptFileName hst ''buildkite-agent-bootstrap-hook-runner''),
          CallTempFile ''buildkite-agent-bootstrap-hook-env-before'']"
  | (tmp3) s b e where "files w0 s = None" "files w0 b = None" "s \<noteq> b" "r = (None, Some e)"
      "files w' = (files w0)(s \<mapsto> [], b \<mapsto> [])" "opened w' = insert s (opened w0 - {b})"
      "executable w' = executable w0"
      "calls w' = calls w0 @
         [CallTempFile (normalizeScriptFileName hst ''buildkite-agent-bootstrap-hook-runner''),
          CallTempFile ''buildkite-agent-bootstrap-hook-env-before'', CallFileClose b,
          CallTempFile ''buildkite-agent-bootstrap-hook-env-after'']"
  | (abs) s b a e where "files w0 s = None" "files w0 b = None" "files w0 a = None"
      "s \<noteq> b" "s \<noteq> a" "b \<noteq> a" "Abs hst hp = Inl e"
      "r = (None, Some (''Failed to find absolute path to '' @ [dq] @ hp @ [dq] @
                        '' ('' @ e @ '')''))"
      "files w' = (files w0)(s \<mapsto> [], b \<mapsto> [], a \<mapsto> [])"
      "opened w' = insert s (opened w0 - {b, a})"
      "executable w' = executable w0"
      "calls w' = calls w0 @
         [CallTempFile (normalizeScriptFileName hst ''buildkite-agent-bootstrap-hook-runner''),
          CallTempFile ''buildkite-agent-bootstrap-hook-env-before'', CallFileClose b,
          CallTempFile ''buildkite-agent-bootstrap-hook-env-after'', CallFileClose a, CallAbs hp]"
  | (chmod) s b a ap e where "files w0 s = None" "files w0 b = None" "files w0 a = None"
      "s \<noteq> b" "s \<noteq> a" "b \<noteq> a" "Abs hst hp = Inr ap"
      "r = (Some \<lparr>hookPath = hp, scriptFile = s, beforeEnvFile = b, afterEnvFile = a\<rparr>, Some e)"
      "files w' = (files w0)(s \<mapsto> written hst s (hookRunnerScript (GOOS hst) b ap a),
                             b \<mapsto> [], a \<mapsto> [])"
      "opened w' = opened w0 - {s, b, a}"
      "executable w' = executable w0"
      "calls w' = calls w0 @
         [CallTempFile (normalizeScriptFileName hst ''buildkite-agent-bootstrap-hook-runner''),
          CallTempFile ''buildkite-agent-bootstrap-hook-env-before'', CallFileClose b,
          CallTempFile ''buildkite-agent-bootstrap-hook-env-after'', CallFileClose a, CallAbs hp,
          CallWriteString s (hookRunnerScript (GOOS hst) b ap a),
          CallFileClose s, CallAddExecute s]"
  | (ok) s b a ap where "files w0 s = None" "files w0 b = None" "files w0 a = None"
      "s \<noteq> b" "s \<noteq> a" "b \<noteq> a" "Abs hst hp = Inr ap"
      "r = (Some \<lparr>hookPath = hp, scriptFile = s, beforeEnvFile = b, afterEnvFile = a\<rparr>, None)"
      "files w' = (files w0)(s \<mapsto> written hst s (hookRunnerScript (GOOS hst) b ap a),
                             b \<mapsto> [], a \<mapsto> [])"
      "opened w' = opened w0 - {s, b, a}"
      "executable w' = insert s (executable w0)"
      "calls w' = calls w0 @
         [CallTempFile (normalizeScriptFileName hst ''buildkite-agent-bootstrap-hook-runner''),
          CallTempFile ''buildkite-agent-bootstrap-hook-env-before'', CallFileClose b,
          CallTempFile ''buildkite-agent-bootstrap-hook-env-after'', CallFileClose a, CallAbs hp,
          CallWriteString s (hookRunnerScript (GOOS hst) b ap a),
          CallFileClose s, CallAddExecute s]"
proof -
  let ?n1 = "normalizeScriptFileName hst ''buildkite-agent-bootstrap-hook-runner''"
  let ?nb = "''buildkite-agent-bootstrap-hook-env-before''"
  let ?na = "''buildkite-agent-bootstrap-hook-env-after''"
  show ?thesis
  proof (cases rule: TempFile_cases [of hst "?n1" w0])
    case (refused e w1)
    then have "newHookScriptWrapper hst hp w0 = ((None, Some e), w1)"
      by (simp add: newHookScriptWrapper_def)
    with refused show ?thesis
      by (intro tmp1 [of e]) (simp_all add: r_def w'_def)
  next
    case t1: (created s w1)
    show ?thesis
    proof (cases rule: TempFile_cases [of hst "?nb" w1])
      case (refused e w2)
      with t1 have "newHookScriptWrapper hst hp w0 = ((None, Some e), w2)"
        by (simp add: newHookScriptWrapper_def)
      with t1 refused show ?thesis
        by (intro tmp2 [of s e]) (simp_all add: r_def w'_def)
    next
      case t2: (created b w2)
      define w3 where "w3 = FileClose b w2"
      from t1 t2 have s_b: "s \<noteq> b" and b0: "files w0 b = None"
        by (auto split: if_splits)
      have f3: "files w3 = (files w0)(s \<mapsto> [], b \<mapsto> [])"
        and o3: "opened w3 = insert s (opened w0 - {b})"
        and e3: "executable w3 = executable w0"
        and c3: "calls w3 = calls w0 @ [CallTempFile ?n1, CallTempFile ?nb, CallFileClose b]"
        using t1 t2 s_b by (auto simp add: w3_def)
      show ?thesis
      proof (cases rule: TempFile_cases [of hst "?na" w3])
        case (refused e w4)
        with t1 t2 have "newHookScriptWrapper hst hp w0 = ((None, Some e), w4)"
          by (simp add: newHookScriptWrapper_def w3_def)
        with t1 s_b b0 refused f3 o3 e3 c3 show ?thesis
          by (intro tmp3 [of s b e]) (simp_all add: r_def w'_def)
      next
        case t3: (created a w4)
        define w5 where "w5 = logCall (CallAbs hp) (FileClose a w4)"
        from t3 f3 have s_a: "s \<noteq> a" and b_a: "b \<noteq> a" and a0: "files w0 a = None"
          by (auto split: if_splits)
        have f5: "files w5 = (files w0)(s \<mapsto> [], b \<mapsto> [], a \<mapsto> [])"
          and o5: "opened w5 = insert s (opened w0 - {b, a})"
          and e5: "executable w5 = executable w0"
          and c5: "calls w5 = calls w0 @ [CallTempFile ?n1, CallTempFile ?nb, CallFileClose b,
                     CallTempFile ?na, CallFileClose a, CallAbs hp]"
          using t3 f3 o3 e3 c3 s_a by (auto simp add: w5_def)
        show ?thesis
        proof (cases "Abs hst hp")
          case (Inl e)
          with t1 t2 t3 have "newHookScriptWrapper hst hp w0 =
             ((None, Some (''Failed to find absolute path to '' @ [dq] @ hp @ [dq] @
                          '' ('' @ e @ '')'')), w5)"
            by (simp add: newHookScriptWrapper_def w3_def w5_def)
          with t1 s_b b0 s_a b_a a0 Inl f5 o5 e5 c5 show ?thesis
            by (intro abs [of s b a e]) (simp_all add: r_def w'_def)
        next
          case (Inr ap)
          let ?script = "hookRunnerScript (GOOS hst) b ap a"
          define w7 where "w7 = FileClose s (snd (WriteString hst s ?script w5))"
          have fs: "files w5 s = Some []" and os: "s \<in> opened w5"
            using s_b s_a by (simp_all add: f5 o5)
          note w6 = WriteString_open [OF fs os, of hst ?script]
          have f7: "files w7 = (files w0)(s \<mapsto> written hst s ?script, b \<mapsto> [], a \<mapsto> [])"
            using s_b s_a b_a by (auto simp add: w7_def w6 f5 fun_eq_iff)
          have o7: "opened w7 = opened w0 - {s, b, a}"
            using s_b s_a b_a by (auto simp add: w7_def w6 o5)
          have e7: "executable w7 = executable w0"
            by (simp add: w7_def w6 e5)
          have c7: "calls w7 = calls w0 @ [CallTempFile ?n1, CallTempFile ?nb, CallFileClose b,
                     CallTempFile ?na, CallFileClose a, CallAbs hp, CallWriteString s ?script, CallFileClose s]"
            by (simp add: w7_def w6 c5)
          show ?thesis
          proof (cases rule: addExecute_cases [of hst s w7])
            case (refused e w8)
            with t1 t2 t3 Inr have "newHookScriptWrapper hst hp w0 =
               ((Some \<lparr>hookPath = hp, scriptFile = s, beforeEnvFile = b, afterEnvFile = a\<rparr>,
                 Some e), w8)"
              by (simp add: newHookScriptWrapper_def w3_def w5_def w7_def)
            with t1 s_b b0 s_a b_a a0 Inr refused f7 o7 e7 c7 show ?thesis
              by (intro chmod [of s b a ap e]) (simp_all add: r_def w'_def)
          next
            case (marked w8)
            with t1 t2 t3 Inr have "newHookScriptWrapper hst hp w0 =
               ((Some \<lparr>hookPath = hp, scriptFile = s, beforeEnvFile = b, afterEnvFile = a\<rparr>,
                 None), w8)"
              by (simp add: newHookScriptWrapper_def w3_def w5_def w7_def)
            with t1 s_b b0 s_a b_a a0 Inr marked f7 o7 e7 c7 show ?thesis
              by (intro ok [of s b a ap]) (simp_all add: r_def w'_def)
          qed
        qed
      qed
    qed
  qed
qed

section \<open>What the readers make of the generated text\<close>

lemma posixCommands_plain:
  "dq \<notin> set p \<Longrightarrow> inq \<or> nl \<notin> set p \<Longrightarrow>
   posixCommands inq cur (p @ rest) = posixCommands inq (cur @ p) rest"
  by (induction p arbitrary: cur) auto

lemma posixPlain_dq: "posixPlain p \<Longrightarrow> dq \<notin> set p"
  by (auto simp: posixPlain_def list_all_iff)

lemma split_posixScript:
  assumes "posixPlain b" "posixPlain h" "posixPlain a"
  shows "posixCommands False [] (posixScript b h a) =
    Some [''#!/bin/bash'',
          ''export -p > '' @ dq # b @ [dq],
          ''. '' @ dq # h @ [dq],
          ''BUILDKITE_LAST_HOOK_EXIT_STATUS=$?'',
          ''export -p > '' @ dq # a @ [dq],
          ''exit $BUILDKITE_LAST_HOOK_EXIT_STATUS'']"
proof -
  note q = posixPlain_dq [OF assms(1)] posixPlain_dq [OF assms(2)] posixPlain_dq [OF assms(3)]
  have c: "dq \<noteq> nl" "CHR ''#'' \<noteq> dq" by (simp_all add: dq_def nl_def)
  show ?thesis
    using q by (simp add: posixScript_def posixCommands_plain dq_def nl_def)
qed

lemma posixQuoted_plain: "posixPlain p \<Longrightarrow> posixQuoted (dq # p @ [dq]) = Some p"
  by (simp add: posixQuoted_def)

lemma isName_sentinel: "isName ''BUILDKITE_LAST_HOOK_EXIT_STATUS''"
  by (simp add: isName_def isDigit_def isNameChar_def)

lemma posixCommand_dump:
  "posixPlain p \<Longrightarrow> posixCommand (''export -p > '' @ dq # p @ [dq]) = Some [DumpEnv p]"
  by (simp add: posixCommand_def posixQuoted_plain)

lemma posixCommand_source:
  "posixPlain p \<Longrightarrow> posixCommand (''. '' @ dq # p @ [dq]) = Some [SourceHook p]"
  by (simp add: posixCommand_def posixQuoted_plain)

lemma posixCommand_capture:
  "posixCommand ''BUILDKITE_LAST_HOOK_EXIT_STATUS=$?'' =
     Some [CaptureStatus ''BUILDKITE_LAST_HOOK_EXIT_STATUS'']"
  by (simp add: posixCommand_def stripSuffix_def isName_sentinel)

lemma posixCommand_exit:
  "posixCommand ''exit $BUILDKITE_LAST_HOOK_EXIT_STATUS'' =
     Some [ExitWith ''BUILDKITE_LAST_HOOK_EXIT_STATUS'']"
  by (simp add: posixCommand_def isName_sentinel)

lemma posixCommand_shebang: "posixCommand ''#!/bin/bash'' = Some []"
  by (simp add: posixCommand_def)

lemma notin_list_all: "x \<notin> set xs \<longleftrightarrow> list_all (\<lambda>c. c \<noteq> x) xs"
  by (auto simp: list_all_iff)

lemma posixPlain_no_escape:
  assumes "posixPlain p"
  shows "list_all (\<lambda>c. c \<noteq> bs) p" "list_all (\<lambda>c. c \<noteq> bq) p"
  using assms by (auto simp: posixPlain_def list_all_iff)

lemma posixScript_no_escape:
  assumes "posixPlain b" "posixPlain h" "posixPlain a"
  shows "bs \<notin> set (posixScript b h a)" "bq \<notin> set (posixScript b h a)"
  unfolding notin_list_all
  using assms [THEN posixPlain_no_escape(1)] assms [THEN posixPlain_no_escape(2)]
  by (simp_all add: posixScript_def bs_def bq_def dq_def nl_def)

lemma readPosix_posixScript:
  assumes "posixPlain b" "posixPlain h" "posixPlain a"
  shows "readPosix (posixScript b h a) =
    Some [DumpEnv b, SourceHook h, CaptureStatus BUILDKITE_LAST_HOOK_EXIT_STATUS,
          DumpEnv a, ExitWith BUILDKITE_LAST_HOOK_EXIT_STATUS]"
proof -
  have "collect (map posixCommand
           [''#!/bin/bash'',
            ''export -p > '' @ dq # b @ [dq],
            ''. '' @ dq # h @ [dq],
            ''BUILDKITE_LAST_HOOK_EXIT_STATUS=$?'',
            ''export -p > '' @ dq # a @ [dq],
            ''exit $BUILDKITE_LAST_HOOK_EXIT_STATUS'']) =
        Some [DumpEnv b, SourceHook h, CaptureStatus BUILDKITE_LAST_HOOK_EXIT_STATUS,
              DumpEnv a, ExitWith BUILDKITE_LAST_HOOK_EXIT_STATUS]"
    unfolding list.map posixCommand_shebang posixCommand_dump [OF assms(1)]
      posixCommand_dump [OF assms(3)] posixCommand_source [OF assms(2)]
      posixCommand_capture posixCommand_exit BUILDKITE_LAST_HOOK_EXIT_STATUS_def
    by simp
  then show ?thesis
    by (simp only: readPosix_def posixScript_no_escape [OF assms] split_posixScript [OF assms]
          simp_thms if_False option.case)
qed




















section \<open>Construction\<close>

lemmas example_defs = exampleHost_def exampleWorld_def exampleWrapper_def noCwdHost_def
  fullDiskHost_def lockedHost_def
lemmas op_defs = newHookScriptWrapper_def TempFileWithExtension_def FileClose_def WriteString_def
  written_def addExecutePermissiontoFile_def logCall_def Let_def

text \<open>
  C6. If the hook path cannot be made absolute, construction fails: no wrapper is
  returned and an error is. The path is resolved after the three temporary files have
  been requested, so whenever resolution is reached (\<open>CallAbs\<close> is among the calls made)
  the error is the path-resolution error and exactly the three temporary files have been
  created. In every case the only files that differ from the world before are temporary
  files this call created (at most three, all still empty, none of them there before),
  and nothing has been made executable.
\<close>

theorem path_resolution_failure:
  assumes run: "newHookScriptWrapper hst hp w = ((wrapper, err), w')"
      and unresolved: "Abs hst hp = Inl e"
  shows "wrapper = None \<and> err \<noteq> None \<and> executable w' = executable w \<and>
         (\<exists>cs ps. calls w' = calls w @ cs \<and> length ps \<le> 3 \<and>
            (\<forall>p. files w' p = (if p \<in> set ps then Some [] else files w p)) \<and>
            (\<forall>p \<in> set ps. files w p = None) \<and>
            filter isAddExecute cs = [] \<and>
            (CallAbs hp \<in> set cs \<longrightarrow>
               err = Some (''Failed to find absolute path to '' @ [dq] @ hp @ [dq] @
                           '' ('' @ e @ '')'') \<and>
               length ps = 3 \<and> distinct ps))"
    (is "?A \<and> ?B \<and> ?C \<and> (\<exists>cs ps. ?P cs ps)")
proof -
  let ?n1 = "normalizeScriptFileName hst ''buildkite-agent-bootstrap-hook-runner''"
  let ?nb = "''buildkite-agent-bootstrap-hook-env-before''"
  let ?na = "''buildkite-agent-bootstrap-hook-env-after''"
  from run have r: "fst (newHookScriptWrapper hst hp w) = (wrapper, err)"
    and w': "snd (newHookScriptWrapper hst hp w) = w'" by simp_all
  show ?thesis
  proof (cases rule: newHook_outcomes [of hst hp w])
    case (tmp1 e1)
    with r w' have ?A ?B ?C by auto
    moreover from tmp1 w' have "?P [CallTempFile ?n1] []" by simp
    ultimately show ?thesis by blast
  next
    case (tmp2 s e1)
    with r w' have ?A ?B ?C by auto
    moreover from tmp2 w' have "?P [CallTempFile ?n1, CallTempFile ?nb] [s]" by simp
    ultimately show ?thesis by blast
  next
    case (tmp3 s b e1)
    with r w' have ?A ?B ?C by auto
    moreover from tmp3 w' have
      "?P [CallTempFile ?n1, CallTempFile ?nb, CallFileClose b, CallTempFile ?na] [s, b]"
      by auto
    ultimately show ?thesis by blast
  next
    case (abs s b a e1)
    with r w' unresolved have ?A ?B ?C
      and msg: "err = Some (''Failed to find absolute path to '' @ [dq] @ hp @ [dq] @
                           '' ('' @ e @ '')'')" by auto
    moreover from abs w' msg have
      "?P [CallTempFile ?n1, CallTempFile ?nb, CallFileClose b, CallTempFile ?na,
           CallFileClose a, CallAbs hp] [s, b, a]"
      by auto
    ultimately show ?thesis by blast
  next
    case (chmod s b a ap e1)
    with unresolved show ?thesis by simp
  next
    case (ok s b a ap)
    with unresolved show ?thesis by simp
  qed
qed

theorem path_resolution_failure_example:
  "Abs noCwdHost ''hooks/pre-command.bat'' =
     Inl ''getwd: The system cannot find the path specified.'' \<and>
   fst (newHookScriptWrapper noCwdHost ''hooks/pre-command.bat'' exampleWorld) =
     (None, Some (''Failed to find absolute path to '' @ [dq] @ ''hooks/pre-command.bat'' @ [dq] @
                  '' (getwd: The system cannot find the path specified.)'')) \<and>
   executable (snd (newHookScriptWrapper noCwdHost ''hooks/pre-command.bat'' exampleWorld)) = {} \<and>
   map (files (snd (newHookScriptWrapper noCwdHost ''hooks/pre-command.bat'' exampleWorld)))
     [scriptFile exampleWrapper, beforeEnvFile exampleWrapper, afterEnvFile exampleWrapper] =
     [Some [], Some [], Some []]"
proof -
  let ?X = "newHookScriptWrapper noCwdHost ''hooks/pre-command.bat'' exampleWorld"
  have u: "Abs noCwdHost ''hooks/pre-command.bat'' =
     Inl ''getwd: The system cannot find the path specified.''"
    by (simp add: example_defs)
  have run: "?X = ((fst (fst ?X), snd (fst ?X)), snd ?X)" by simp
  note t = path_resolution_failure [OF run u]
  have ev: "?X = ((None, Some (''Failed to find absolute path to '' @ [dq] @ ''hooks/pre-command.bat'' @ [dq] @
                  '' (getwd: The system cannot find the path specified.)'')),
     \<lparr>files = [scriptFile exampleWrapper \<mapsto> [], beforeEnvFile exampleWrapper \<mapsto> [],
               afterEnvFile exampleWrapper \<mapsto> []],
      opened = {scriptFile exampleWrapper}, executable = {},
      calls = [CallTempFile ''buildkite-agent-bootstrap-hook-runner.bat'',
               CallTempFile ''buildkite-agent-bootstrap-hook-env-before'',
               CallFileClose (beforeEnvFile exampleWrapper),
               CallTempFile ''buildkite-agent-bootstrap-hook-env-after'',
               CallFileClose (afterEnvFile exampleWrapper),
               CallAbs ''hooks/pre-command.bat'']\<rparr>)"
    by (simp add: op_defs example_defs)
  have names: "scriptFile exampleWrapper \<noteq> beforeEnvFile exampleWrapper"
    "scriptFile exampleWrapper \<noteq> afterEnvFile exampleWrapper"
    "beforeEnvFile exampleWrapper \<noteq> afterEnvFile exampleWrapper"
    by (simp_all add: example_defs)
  from t u names show ?thesis
    by (simp add: ev)
qed

text \<open>
  The order of the last calls. In every construction that returns a wrapper the calls
  end with the write of the script text to the script file, the close of that file and
  the one make-executable call, on that file; a construction that returns no wrapper
  makes no such call. The script file is then closed and holds what the write left
  there; it is executable when no error is returned.
\<close>

lemma addExecute_after_write_and_close:
  assumes run: "newHookScriptWrapper hst hp w = ((wrapper, err), w')"
  shows "\<exists>cs. calls w' = calls w @ cs \<and>
     (case wrapper of
        None \<Rightarrow> filter isAddExecute cs = []
      | Some h \<Rightarrow>
          (\<exists>pre ap. Abs hst hp = Inr ap \<and>
             cs = pre @
               [CallWriteString (Path h)
                  (hookRunnerScript (GOOS hst) (beforeEnvFile h) ap (afterEnvFile h)),
                CallFileClose (Path h),
                CallAddExecute (Path h)] \<and>
             filter isAddExecute pre = [] \<and>
             files w' (Path h) =
               Some (written hst (Path h)
                       (hookRunnerScript (GOOS hst) (beforeEnvFile h) ap (afterEnvFile h))) \<and>
             Path h \<notin> opened w' \<and>
             (err = None \<longrightarrow> Path h \<in> executable w')))"
proof -
  let ?n1 = "normalizeScriptFileName hst ''buildkite-agent-bootstrap-hook-runner''"
  let ?nb = "''buildkite-agent-bootstrap-hook-env-before''"
  let ?na = "''buildkite-agent-bootstrap-hook-env-after''"
  from run have r: "fst (newHookScriptWrapper hst hp w) = (wrapper, err)"
    and w': "snd (newHookScriptWrapper hst hp w) = w'" by simp_all
  show ?thesis
  proof (cases rule: newHook_outcomes [of hst hp w])
    case (tmp1 e)
    with r w' show ?thesis by auto
  next
    case (tmp2 s e)
    with r w' show ?thesis by auto
  next
    case (tmp3 s b e)
    with r w' show ?thesis by auto
  next
    case (abs s b a e)
    with r w' show ?thesis by auto
  next
    case (chmod s b a ap e)
    let ?pre = "[CallTempFile ?n1, CallTempFile ?nb, CallFileClose b, CallTempFile ?na,
                 CallFileClose a, CallAbs hp]"
    from chmod r have h: "wrapper = Some \<lparr>hookPath = hp, scriptFile = s, beforeEnvFile = b,
        afterEnvFile = a\<rparr>" and e: "err = Some e" by auto
    from chmod w' have "calls w' = calls w @ ?pre @
        [CallWriteString s (hookRunnerScript (GOOS hst) b ap a), CallFileClose s, CallAddExecute s]"
      and "files w' s = Some (written hst s (hookRunnerScript (GOOS hst) b ap a))"
      and "s \<notin> opened w'"
      by auto
    with chmod(7) h e show ?thesis
      by (simp add: Path_def)
  next
    case (ok s b a ap)
    let ?pre = "[CallTempFile ?n1, CallTempFile ?nb, CallFileClose b, CallTempFile ?na,
                 CallFileClose a, CallAbs hp]"
    from ok r have h: "wrapper = Some \<lparr>hookPath = hp, scriptFile = s, beforeEnvFile = b,
        afterEnvFile = a\<rparr>" and e: "err = None" by auto
    from ok w' have "calls w' = calls w @ ?pre @
        [CallWriteString s (hookRunnerScript (GOOS hst) b ap a), CallFileClose s, CallAddExecute s]"
      and "files w' s = Some (written hst s (hookRunnerScript (GOOS hst) b ap a))"
      and "s \<notin> opened w'"
      and "s \<in> executable w'"
      by auto
    with ok(7) h e show ?thesis
      by (simp add: Path_def)
  qed
qed

lemma example_names:
  "scriptFile exampleWrapper \<noteq> beforeEnvFile exampleWrapper"
  "scriptFile exampleWrapper \<noteq> afterEnvFile exampleWrapper"
  "beforeEnvFile exampleWrapper \<noteq> afterEnvFile exampleWrapper"
  by (simp_all add: example_defs)

lemma example_construction:
  "newHookScriptWrapper exampleHost ''hooks/pre-command.bat'' exampleWorld =
     ((Some exampleWrapper, None),
      \<lparr>files = [scriptFile exampleWrapper \<mapsto>
                 hookRunnerScript ''windows'' (beforeEnvFile exampleWrapper)
                   ''C:/builds/hooks/pre-command.bat'' (afterEnvFile exampleWrapper),
               beforeEnvFile exampleWrapper \<mapsto> [],
               afterEnvFile exampleWrapper \<mapsto> []],
       opened = {}, executable = {scriptFile exampleWrapper},
       calls = [CallTempFile ''buildkite-agent-bootstrap-hook-runner.bat'',
                CallTempFile ''buildkite-agent-bootstrap-hook-env-before'',
                CallFileClose (beforeEnvFile exampleWrapper),
                CallTempFile ''buildkite-agent-bootstrap-hook-env-after'',
                CallFileClose (afterEnvFile exampleWrapper),
                CallAbs ''hooks/pre-command.bat'',
                CallWriteString (scriptFile exampleWrapper)
                  (hookRunnerScript ''windows'' (beforeEnvFile exampleWrapper)
                     ''C:/builds/hooks/pre-command.bat'' (afterEnvFile exampleWrapper)),
                CallFileClose (scriptFile exampleWrapper),
                CallAddExecute (scriptFile exampleWrapper)]\<rparr>)"
  by (simp add: op_defs example_defs fun_upd_twist)

text \<open>
  C9, the code at a failing input. The three temporary files are created and the host
  fails the write of the script body, letting nothing through. The constructor does not
  look at the result of \<open>WriteString\<close>: it closes the file, makes it executable and
  returns the wrapper with no error. The path of the wrapper then names a closed,
  executable file that is empty, not the script.
\<close>

theorem newHookScriptWrapper_returns_unwritten_script:
  "fst (newHookScriptWrapper writeRefusedHost ''hooks/pre-command.bat'' exampleWorld) =
     (Some exampleWrapper, None) \<and>
   files (snd (newHookScriptWrapper writeRefusedHost ''hooks/pre-command.bat'' exampleWorld))
     (Path exampleWrapper) = Some [] \<and>
   hookRunnerScript (GOOS writeRefusedHost) (beforeEnvFile exampleWrapper)
     ''C:/builds/hooks/pre-command.bat'' (afterEnvFile exampleWrapper) \<noteq> [] \<and>
   Path exampleWrapper \<notin>
     opened (snd (newHookScriptWrapper writeRefusedHost ''hooks/pre-command.bat'' exampleWorld)) \<and>
   Path exampleWrapper \<in>
     executable (snd (newHookScriptWrapper writeRefusedHost ''hooks/pre-command.bat''
                        exampleWorld)) \<and>
   filter isAddExecute
     (calls (snd (newHookScriptWrapper writeRefusedHost ''hooks/pre-command.bat'' exampleWorld))) =
     [CallAddExecute (Path exampleWrapper)]"
proof -
  let ?script = "hookRunnerScript ''windows'' (beforeEnvFile exampleWrapper)
                   ''C:/builds/hooks/pre-command.bat'' (afterEnvFile exampleWrapper)"
  have ev: "newHookScriptWrapper writeRefusedHost ''hooks/pre-command.bat'' exampleWorld =
     ((Some exampleWrapper, None),
      \<lparr>files = [scriptFile exampleWrapper \<mapsto> [],
               beforeEnvFile exampleWrapper \<mapsto> [],
               afterEnvFile exampleWrapper \<mapsto> []],
       opened = {}, executable = {scriptFile exampleWrapper},
       calls = [CallTempFile ''buildkite-agent-bootstrap-hook-runner.bat'',
                CallTempFile ''buildkite-agent-bootstrap-hook-env-before'',
                CallFileClose (beforeEnvFile exampleWrapper),
                CallTempFile ''buildkite-agent-bootstrap-hook-env-after'',
                CallFileClose (afterEnvFile exampleWrapper),
                CallAbs ''hooks/pre-command.bat'',
                CallWriteString (scriptFile exampleWrapper) ?script,
                CallFileClose (scriptFile exampleWrapper),
                CallAddExecute (scriptFile exampleWrapper)]\<rparr>)"
    by (simp add: op_defs example_defs writeRefusedHost_def fun_upd_twist)
  have nonempty: "hookRunnerScript (GOOS writeRefusedHost) (beforeEnvFile exampleWrapper)
     ''C:/builds/hooks/pre-command.bat'' (afterEnvFile exampleWrapper) \<noteq> []"
    by (simp add: hookRunnerScript_def windowsScript_def posixScript_def)
  from nonempty example_names show ?thesis
    by (simp add: ev Path_def)
qed

text \<open>
  C2, the code at a failing input. The host refuses the second temporary file. The
  constructor returns the error and no wrapper; the script file it had created is still
  on disk and its handle still open, and nothing returned names it.
\<close>

theorem newHookScriptWrapper_leaves_script_file:
  "fst (newHookScriptWrapper fullDiskHost ''hooks/pre-command.bat'' exampleWorld) =
     (None, Some ''There is not enough space on the disk.'') \<and>
   files (snd (newHookScriptWrapper fullDiskHost ''hooks/pre-command.bat'' exampleWorld))
     ''C:/Temp/buildkite-agent-bootstrap-hook-runner.bat'' = Some [] \<and>
   ''C:/Temp/buildkite-agent-bootstrap-hook-runner.bat'' \<in>
     opened (snd (newHookScriptWrapper fullDiskHost ''hooks/pre-command.bat'' exampleWorld))"
proof -
  have "newHookScriptWrapper fullDiskHost ''hooks/pre-command.bat'' exampleWorld =
     ((None, Some ''There is not enough space on the disk.''),
      \<lparr>files = [''C:/Temp/buildkite-agent-bootstrap-hook-runner.bat'' \<mapsto> []],
       opened = {''C:/Temp/buildkite-agent-bootstrap-hook-runner.bat''},
       executable = {},
       calls = [CallTempFile ''buildkite-agent-bootstrap-hook-runner.bat'',
                CallTempFile ''buildkite-agent-bootstrap-hook-env-before'']\<rparr>)"
    by (simp add: op_defs example_defs)
  then show ?thesis by simp
qed

section \<open>Cleaning up\<close>

lemma os_Remove_effect:
  "files (snd (os_Remove hst p w)) =
     (\<lambda>q. if q = p \<and> RemoveErr hst p = None then None else files w q)"
  "opened (snd (os_Remove hst p w)) = opened w"
  "executable (snd (os_Remove hst p w)) =
     (if files w p \<noteq> None \<and> RemoveErr hst p = None then executable w - {p} else executable w)"
  "calls (snd (os_Remove hst p w)) = calls w @ [CallRemove p]"
  by (auto simp add: os_Remove_def Let_def fun_eq_iff split: option.splits)

text \<open>
  C7, as amended. \<open>Close\<close> calls \<open>os.Remove\<close> once on each of the three temporary files,
  in the order script, before-dump, after-dump, and drops the three results. Afterwards
  every one of the three paths whose removal the host does not refuse is absent; a path
  whose removal is refused keeps its file; every other file is as it was. \<open>Close\<close> is
  total and returns nothing, whatever the files hold and whether or not they exist.
\<close>

theorem Close_removes_what_it_can:
  "files (Close hst h w) =
     (\<lambda>p. if p \<in> {scriptFile h, beforeEnvFile h, afterEnvFile h} \<and> RemoveErr hst p = None
          then None else files w p) \<and>
   opened (Close hst h w) = opened w \<and>
   calls (Close hst h w) =
     calls w @ [CallRemove (scriptFile h), CallRemove (beforeEnvFile h),
                CallRemove (afterEnvFile h)]"
proof -
  have "files (Close hst h w) =
     (\<lambda>p. if p \<in> {scriptFile h, beforeEnvFile h, afterEnvFile h} \<and> RemoveErr hst p = None
          then None else files w p)"
    by (auto simp add: Close_def Let_def os_Remove_effect fun_eq_iff)
  moreover have "opened (Close hst h w) = opened w"
    by (simp add: Close_def Let_def os_Remove_effect)
  moreover have "calls (Close hst h w) =
     calls w @ [CallRemove (scriptFile h), CallRemove (beforeEnvFile h),
                CallRemove (afterEnvFile h)]"
    by (simp add: Close_def Let_def os_Remove_effect)
  ultimately show ?thesis by blast
qed

lemma TempFileWithExtension_RemoveErr:
  "TempFileWithExtension (hst\<lparr>RemoveErr := f\<rparr>) = TempFileWithExtension hst"
  by (simp add: TempFileWithExtension_def fun_eq_iff cong: sum.case_cong)

lemma WriteString_RemoveErr:
  "WriteString (hst\<lparr>RemoveErr := f\<rparr>) = WriteString hst"
  by (simp add: WriteString_def fun_eq_iff cong: option.case_cong if_cong)

lemma addExecutePermissiontoFile_RemoveErr:
  "addExecutePermissiontoFile (hst\<lparr>RemoveErr := f\<rparr>) = addExecutePermissiontoFile hst"
  by (simp add: addExecutePermissiontoFile_def fun_eq_iff cong: option.case_cong)

lemma newHookScriptWrapper_RemoveErr:
  "newHookScriptWrapper (hst\<lparr>RemoveErr := f\<rparr>) hp w = newHookScriptWrapper hst hp w"
  by (simp add: newHookScriptWrapper_def TempFileWithExtension_RemoveErr
      WriteString_RemoveErr addExecutePermissiontoFile_RemoveErr
      cong: sum.case_cong prod.case_cong option.case_cong)

lemma locked_construction:
  "newHookScriptWrapper lockedHost ''hooks/pre-command.bat'' exampleWorld =
   newHookScriptWrapper exampleHost ''hooks/pre-command.bat'' exampleWorld"
  unfolding lockedHost_def by (rule newHookScriptWrapper_RemoveErr)

theorem Close_example:
  "map (files (Close exampleHost exampleWrapper
          (snd (newHookScriptWrapper exampleHost ''hooks/pre-command.bat'' exampleWorld))))
     [scriptFile exampleWrapper, beforeEnvFile exampleWrapper, afterEnvFile exampleWrapper] =
     [None, None, None]"
proof -
  have "RemoveErr exampleHost = (\<lambda>p. None)" by (simp add: exampleHost_def)
  with Close_removes_what_it_can [of exampleHost exampleWrapper
      "snd (newHookScriptWrapper exampleHost ''hooks/pre-command.bat'' exampleWorld)"]
  show ?thesis by simp
qed

text \<open>
  The claim as stated fails where a removal is refused: the wrapper is built, the host
  denies the removal of the script file, and after \<open>Close\<close> the script is still there.
\<close>

theorem Close_leaves_refused_file:
  "fst (newHookScriptWrapper lockedHost ''hooks/pre-command.bat'' exampleWorld) =
     (Some exampleWrapper, None) \<and>
   fst (os_Remove lockedHost (scriptFile exampleWrapper)
          (snd (newHookScriptWrapper lockedHost ''hooks/pre-command.bat'' exampleWorld))) =
     Some ''Access is denied.'' \<and>
   files (Close lockedHost exampleWrapper
            (snd (newHookScriptWrapper lockedHost ''hooks/pre-command.bat'' exampleWorld)))
     (scriptFile exampleWrapper) =
     Some (hookRunnerScript ''windows'' (beforeEnvFile exampleWrapper)
             ''C:/builds/hooks/pre-command.bat'' (afterEnvFile exampleWrapper))"
proof -
  let ?W = "snd (newHookScriptWrapper lockedHost ''hooks/pre-command.bat'' exampleWorld)"
  have r: "RemoveErr lockedHost (scriptFile exampleWrapper) = Some ''Access is denied.''"
    by (simp add: lockedHost_def exampleHost_def exampleWrapper_def)
  have f: "files ?W (scriptFile exampleWrapper) =
     Some (hookRunnerScript ''windows'' (beforeEnvFile exampleWrapper)
             ''C:/builds/hooks/pre-command.bat'' (afterEnvFile exampleWrapper))"
    using example_names by (simp add: locked_construction example_construction)
  have "fst (os_Remove lockedHost (scriptFile exampleWrapper) ?W) = Some ''Access is denied.''"
    using r f by (simp add: os_Remove_def Let_def)
  moreover have "files (Close lockedHost exampleWrapper ?W) (scriptFile exampleWrapper) =
      files ?W (scriptFile exampleWrapper)"
    using r example_names by (simp add: Close_def Let_def os_Remove_effect)
  moreover have "fst (newHookScriptWrapper lockedHost ''hooks/pre-command.bat'' exampleWorld) =
     (Some exampleWrapper, None)"
    by (simp add: locked_construction example_construction)
  ultimately show ?thesis using f by simp
qed

section \<open>The changed environment\<close>

lemma ReadFile_effect [simp]:
  "files (snd (ReadFile p w)) = files w"
  "opened (snd (ReadFile p w)) = opened w"
  "executable (snd (ReadFile p w)) = executable w"
  "calls (snd (ReadFile p w)) = calls w @ [CallReadFile p]"
  by (simp_all add: ReadFile_def Let_def split: option.splits)

lemma ReadFile_result:
  "fst (ReadFile p w) =
     (case files w p of
        None \<Rightarrow> Inl (''open '' @ p @ '': no such file or directory'')
      | Some c \<Rightarrow> Inr c)"
  by (simp add: ReadFile_def Let_def split: option.splits)

lemma readable_iff: "readable w p \<longleftrightarrow> files w p \<noteq> None"
  by (simp add: readable_def ReadFile_result split: option.splits)

lemma ChangedEnvironment_unreadable_before:
  assumes "files w (beforeEnvFile h) = None"
  shows "ChangedEnvironment hst h w =
    ((None, Some (''Failed to read '' @ [dq] @ beforeEnvFile h @ [dq] @ '' ('' @
                  (''open '' @ beforeEnvFile h @ '': no such file or directory'') @ '')'')),
     logCall (CallReadFile (beforeEnvFile h)) w)"
  using assms by (simp add: ChangedEnvironment_def ReadFile_def)

lemma ChangedEnvironment_unreadable_after:
  assumes "files w (beforeEnvFile h) = Some bc" "files w (afterEnvFile h) = None"
  shows "ChangedEnvironment hst h w =
    ((None, Some (''Failed to read '' @ [dq] @ afterEnvFile h @ [dq] @ '' ('' @
                  (''open '' @ afterEnvFile h @ '': no such file or directory'') @ '')'')),
     logCall (CallReadFile (afterEnvFile h)) (logCall (CallReadFile (beforeEnvFile h)) w))"
  using assms by (simp add: ChangedEnvironment_def ReadFile_def)

lemma ChangedEnvironment_read:
  assumes "files w (beforeEnvFile h) = Some bc" "files w (afterEnvFile h) = Some ac"
  shows "ChangedEnvironment hst h w =
    ((Some (Diff ((FromExport hst ac)(BUILDKITE_LAST_HOOK_EXIT_STATUS := None))
                 (FromExport hst bc)), None),
     logCall (CallReadFile (afterEnvFile h)) (logCall (CallReadFile (beforeEnvFile h)) w))"
  using assms by (simp add: ChangedEnvironment_def ReadFile_def Remove_def)

lemma Diff_Some_iff:
  "Diff e other k = Some v \<longleftrightarrow>
     e k = Some v \<and> (other k = None \<or> (\<exists>v'. other k = Some v' \<and> v' \<noteq> v))"
  by (auto simp: Diff_def split: option.splits)

text \<open>
  C1. Whenever both dump files can be read, \<open>ChangedEnvironment\<close> returns a diff and no
  error, and for the two decoded snapshots the diff maps \<open>k\<close> to \<open>v\<close> exactly when the after
  snapshot maps \<open>k\<close> to \<open>v\<close>, the before snapshot lacks \<open>k\<close> or has it with another value,
  and \<open>k\<close> is not \<open>BUILDKITE_LAST_HOOK_EXIT_STATUS\<close>. So the diff has no key the after
  snapshot lacks, and never the sentinel. The decoder is any function of the dump text.
\<close>

theorem ChangedEnvironment_diff_correct:
  assumes "files w (beforeEnvFile h) = Some beforeEnvContents"
      and "files w (afterEnvFile h) = Some afterEnvContents"
  shows "\<exists>d. fst (ChangedEnvironment hst h w) = (Some d, None) \<and>
           (\<forall>k v. d k = Some v \<longleftrightarrow>
               FromExport hst afterEnvContents k = Some v \<and>
               (FromExport hst beforeEnvContents k = None \<or>
                (\<exists>v'. FromExport hst beforeEnvContents k = Some v' \<and> v' \<noteq> v)) \<and>
               k \<noteq> BUILDKITE_LAST_HOOK_EXIT_STATUS) \<and>
           dom d \<subseteq> dom (FromExport hst afterEnvContents) \<and>
           BUILDKITE_LAST_HOOK_EXIT_STATUS \<notin> dom d"
proof -
  let ?after = "(FromExport hst afterEnvContents)(BUILDKITE_LAST_HOOK_EXIT_STATUS := None)"
  let ?d = "Diff ?after (FromExport hst beforeEnvContents)"
  have res: "fst (ChangedEnvironment hst h w) = (Some ?d, None)"
    by (simp add: ChangedEnvironment_read [OF assms])
  have iff: "\<forall>k v. ?d k = Some v \<longleftrightarrow>
               FromExport hst afterEnvContents k = Some v \<and>
               (FromExport hst beforeEnvContents k = None \<or>
                (\<exists>v'. FromExport hst beforeEnvContents k = Some v' \<and> v' \<noteq> v)) \<and>
               k \<noteq> BUILDKITE_LAST_HOOK_EXIT_STATUS"
    by (auto simp add: Diff_Some_iff)
  from iff have sub: "dom ?d \<subseteq> dom (FromExport hst afterEnvContents)"
    by (auto simp: dom_def)
  from iff have nos: "BUILDKITE_LAST_HOOK_EXIT_STATUS \<notin> dom ?d"
    by (auto simp: dom_def)
  from res iff sub nos show ?thesis by blast
qed

text \<open>
  C8. \<open>ChangedEnvironment\<close> returns an error exactly when one of the two dump files cannot
  be read, and it returns an environment exactly when it returns no error. What the
  files hold plays no part: \<open>env.FromExport\<close> returns an environment and no error, so no
  content of a readable dump makes the call fail.
\<close>

theorem ChangedEnvironment_fails_iff_unreadable:
  "(snd (fst (ChangedEnvironment hst h w)) \<noteq> None \<longleftrightarrow>
      \<not> readable w (beforeEnvFile h) \<or> \<not> readable w (afterEnvFile h)) \<and>
   (fst (fst (ChangedEnvironment hst h w)) \<noteq> None \<longleftrightarrow>
      snd (fst (ChangedEnvironment hst h w)) = None)"
proof (cases "files w (beforeEnvFile h)")
  case None
  then show ?thesis
    by (simp add: ChangedEnvironment_unreadable_before readable_iff)
next
  case b: (Some bc)
  show ?thesis
  proof (cases "files w (afterEnvFile h)")
    case None
    with b show ?thesis
      by (simp add: ChangedEnvironment_unreadable_after readable_iff)
  next
    case (Some ac)
    with b show ?thesis
      by (simp add: ChangedEnvironment_read readable_iff)
  qed
qed

text \<open>
  C10. \<open>ChangedEnvironment\<close> leaves every file, open handle and permission as it was; the
  only calls it makes are reads of the two dump files. Called again on the world it
  leaves behind, it returns the same result. It assigns to no field of the wrapper (the
  wrapper is passed in and not returned), so \<open>Path\<close> is the same before and after, and
  the file at that path is untouched.
\<close>

theorem ChangedEnvironment_only_reads:
  "files (snd (ChangedEnvironment hst h w)) = files w \<and>
   opened (snd (ChangedEnvironment hst h w)) = opened w \<and>
   executable (snd (ChangedEnvironment hst h w)) = executable w \<and>
   (\<exists>rs. calls (snd (ChangedEnvironment hst h w)) = calls w @ rs \<and>
         set rs \<subseteq> {CallReadFile (beforeEnvFile h), CallReadFile (afterEnvFile h)}) \<and>
   fst (ChangedEnvironment hst h (snd (ChangedEnvironment hst h w))) =
     fst (ChangedEnvironment hst h w) \<and>
   files (snd (ChangedEnvironment hst h w)) (Path h) = files w (Path h)"
proof -
  let ?w' = "snd (ChangedEnvironment hst h w)"
  have frame: "files ?w' = files w \<and> opened ?w' = opened w \<and> executable ?w' = executable w \<and>
     (\<exists>rs. calls ?w' = calls w @ rs \<and>
         set rs \<subseteq> {CallReadFile (beforeEnvFile h), CallReadFile (afterEnvFile h)})"
  proof (cases "files w (beforeEnvFile h)")
    case None
    then show ?thesis by (simp add: ChangedEnvironment_unreadable_before)
  next
    case b: (Some bc)
    show ?thesis
    proof (cases "files w (afterEnvFile h)")
      case None
      with b show ?thesis by (simp add: ChangedEnvironment_unreadable_after)
    next
      case (Some ac)
      with b show ?thesis by (simp add: ChangedEnvironment_read)
    qed
  qed
  then have f: "files ?w' = files w" by blast
  have again: "fst (ChangedEnvironment hst h ?w') = fst (ChangedEnvironment hst h w)"
  proof (cases "files w (beforeEnvFile h)")
    case None
    with f show ?thesis by (simp add: ChangedEnvironment_unreadable_before)
  next
    case b: (Some bc)
    show ?thesis
    proof (cases "files w (afterEnvFile h)")
      case None
      with b f show ?thesis by (simp add: ChangedEnvironment_unreadable_after)
    next
      case (Some ac)
      with b f show ?thesis by (simp add: ChangedEnvironment_read)
    qed
  qed
  from frame again f show ?thesis by simp
qed

lemma ranWorld_dumps:
  "files ranWorld (beforeEnvFile exampleWrapper) = Some ''PATH=C:/bin''"
  "files ranWorld (afterEnvFile exampleWrapper) =
     Some (''PATH=C:/bin;C:/extra'' @ [nl] @ ''FOO=bar'' @ [nl] @ ''not a declaration'' @ [nl] @
           ''BUILDKITE_LAST_HOOK_EXIT_STATUS=0'')"
  by (simp_all add: ranWorld_def exampleWrapper_def)

lemma example_before:
  "listingFromExport ''PATH=C:/bin'' = [''PATH'' \<mapsto> ''C:/bin'']"
  by (simp add: listingFromExport_def setLine_def nl_def)

lemma example_after:
  "listingFromExport
     (''PATH=C:/bin;C:/extra'' @ [nl] @ ''FOO=bar'' @ [nl] @ ''not a declaration'' @ [nl] @
      ''BUILDKITE_LAST_HOOK_EXIT_STATUS=0'') =
   [''PATH'' \<mapsto> ''C:/bin;C:/extra'', ''FOO'' \<mapsto> ''bar'',
    ''BUILDKITE_LAST_HOOK_EXIT_STATUS'' \<mapsto> ''0'']"
  by (simp add: listingFromExport_def setLine_def nl_def)

theorem ChangedEnvironment_diff_example:
  "files ranWorld (beforeEnvFile exampleWrapper) = Some ''PATH=C:/bin'' \<and>
   files ranWorld (afterEnvFile exampleWrapper) =
     Some (''PATH=C:/bin;C:/extra'' @ [nl] @ ''FOO=bar'' @ [nl] @ ''not a declaration'' @ [nl] @
           ''BUILDKITE_LAST_HOOK_EXIT_STATUS=0'') \<and>
   (\<exists>d. fst (ChangedEnvironment exampleHost exampleWrapper ranWorld) = (Some d, None) \<and>
        d ''PATH'' = Some ''C:/bin;C:/extra'' \<and> d ''FOO'' = Some ''bar'' \<and>
        d ''BUILDKITE_LAST_HOOK_EXIT_STATUS'' = None \<and> dom d = {''PATH'', ''FOO''})"
proof -
  let ?ac = "''PATH=C:/bin;C:/extra'' @ [nl] @ ''FOO=bar'' @ [nl] @ ''not a declaration'' @ [nl] @
           ''BUILDKITE_LAST_HOOK_EXIT_STATUS=0''"
  have dec: "FromExport exampleHost = listingFromExport" by (simp add: exampleHost_def)
  from ChangedEnvironment_diff_correct [OF ranWorld_dumps, of exampleHost]
  obtain d where res: "fst (ChangedEnvironment exampleHost exampleWrapper ranWorld) = (Some d, None)"
    and iff: "\<And>k v. d k = Some v \<longleftrightarrow>
               listingFromExport ?ac k = Some v \<and>
               (listingFromExport ''PATH=C:/bin'' k = None \<or>
                (\<exists>v'. listingFromExport ''PATH=C:/bin'' k = Some v' \<and> v' \<noteq> v)) \<and>
               k \<noteq> BUILDKITE_LAST_HOOK_EXIT_STATUS"
    unfolding dec by blast
  note iff' = iff [unfolded example_before example_after BUILDKITE_LAST_HOOK_EXIT_STATUS_def]
  have p: "d ''PATH'' = Some ''C:/bin;C:/extra''" by (simp add: iff')
  have f: "d ''FOO'' = Some ''bar''" by (simp add: iff')
  have s: "d ''BUILDKITE_LAST_HOOK_EXIT_STATUS'' = None"
  proof (cases "d ''BUILDKITE_LAST_HOOK_EXIT_STATUS''")
    case None
    then show ?thesis .
  next
    case (Some v)
    with iff' [of "''BUILDKITE_LAST_HOOK_EXIT_STATUS''" v] show ?thesis by simp
  qed
  have "dom d = {''PATH'', ''FOO''}"
  proof
    show "dom d \<subseteq> {''PATH'', ''FOO''}"
    proof
      fix k assume "k \<in> dom d"
      then obtain v where "d k = Some v" by auto
      then show "k \<in> {''PATH'', ''FOO''}"
        by (simp add: iff' split: if_splits)
    qed
    show "{''PATH'', ''FOO''} \<subseteq> dom d" using p f by auto
  qed
  with res p f s ranWorld_dumps show ?thesis by blast
qed

theorem ChangedEnvironment_fails_iff_unreadable_example:
  "readable ranWorld (beforeEnvFile exampleWrapper) \<and>
   readable ranWorld (afterEnvFile exampleWrapper) \<and>
   snd (fst (ChangedEnvironment exampleHost exampleWrapper ranWorld)) = None \<and>
   fst (fst (ChangedEnvironment exampleHost exampleWrapper ranWorld)) \<noteq> None"
proof -
  have r: "readable ranWorld (beforeEnvFile exampleWrapper)"
    "readable ranWorld (afterEnvFile exampleWrapper)"
    by (simp_all add: readable_iff ranWorld_dumps)
  with ChangedEnvironment_fails_iff_unreadable [of exampleHost exampleWrapper ranWorld]
  show ?thesis by simp
qed

section \<open>The script and its run\<close>

text \<open>
  C4, as amended. For every hook path and pair of dump-file paths that contain no double
  quote, dollar sign, backquote or backslash, the text generated on a platform other
  than \<open>windows\<close> reads as exactly five steps, in this order: dump the environment to the
  before-dump path, source the hook by the path given (the \<open>.\<close> builtin), capture the
  exit status in \<open>BUILDKITE_LAST_HOOK_EXIT_STATUS\<close>, dump the environment to the
  after-dump path, exit with the captured status.
\<close>

theorem posix_script_five_steps:
  assumes "goos \<noteq> ''windows''"
      and "posixPlain beforeName" "posixPlain absolutePathToHook" "posixPlain afterName"
  shows "readPosix (hookRunnerScript goos beforeName absolutePathToHook afterName) =
    Some [DumpEnv beforeName,
          SourceHook absolutePathToHook,
          CaptureStatus BUILDKITE_LAST_HOOK_EXIT_STATUS,
          DumpEnv afterName,
          ExitWith BUILDKITE_LAST_HOOK_EXIT_STATUS]"
proof -
  from assms(1) have "hookRunnerScript goos beforeName absolutePathToHook afterName =
      posixScript beforeName absolutePathToHook afterName"
    by (simp add: hookRunnerScript_def)
  with readPosix_posixScript [OF assms(2-4)] show ?thesis by simp
qed

lemma posixPlain_examples:
  "posixPlain ''/tmp/before''" "posixPlain ''/hooks/pre-command''" "posixPlain ''/tmp/after''"
  by (simp_all add: posixPlain_def dq_def bq_def bs_def)


theorem posix_script_five_steps_example:
  "''linux'' \<noteq> ''windows'' \<and>
   posixPlain ''/tmp/before'' \<and> posixPlain ''/hooks/pre-command'' \<and> posixPlain ''/tmp/after'' \<and>
   readPosix (hookRunnerScript ''linux'' ''/tmp/before'' ''/hooks/pre-command'' ''/tmp/after'') =
    Some [DumpEnv ''/tmp/before'',
          SourceHook ''/hooks/pre-command'',
          CaptureStatus ''BUILDKITE_LAST_HOOK_EXIT_STATUS'',
          DumpEnv ''/tmp/after'',
          ExitWith ''BUILDKITE_LAST_HOOK_EXIT_STATUS'']"
proof -
  have g: "''linux'' \<noteq> ''windows''" by simp
  from posix_script_five_steps [OF g posixPlain_examples] g posixPlain_examples
  show ?thesis by (simp add: BUILDKITE_LAST_HOOK_EXIT_STATUS_def)
qed

text \<open>
  The claim as stated, for every hook path, fails: the paths are put between double quotes
  as they are. With a double quote in the hook path the third line of the text is
  \<open>. "/hooks/pre"command"\<close>, the quotes of the text no longer pair up, and the shell finds
  no five steps in it.
\<close>

theorem posix_script_unescaped_quote:
  "readPosix (hookRunnerScript ''linux'' ''/tmp/before''
                (''/hooks/pre'' @ [dq] @ ''command'') ''/tmp/after'') = None"
proof -
  have "posixCommands False []
          (posixScript ''/tmp/before'' (''/hooks/pre'' @ [dq] @ ''command'') ''/tmp/after'') = None"
    by (simp add: posixScript_def dq_def nl_def)
  then show ?thesis
    by (simp add: readPosix_def hookRunnerScript_def)
qed





end
